theory Spec2Isabelle
  imports Complex_Main "HOL-Library.AList"
begin

section \<open>Data model (types.ts, constants.ts)\<close>

text \<open>
  A JavaScript \<^verbatim>\<open>number\<close> is modelled as a \<^typ>\<open>real\<close>: arithmetic is exact, and the
  non-finite values (\<^verbatim>\<open>NaN\<close>, \<^verbatim>\<open>Infinity\<close>) are outside the model. Every division of the
  program that the theorems below look at has a zoom factor as its divisor, and their
  statements take that factor positive. A byte count and an animation-frame handle are
  natural numbers. A property that may be absent (\<^verbatim>\<open>selected?: boolean\<close>) and a value that
  may be \<^verbatim>\<open>null\<close> are options.
\<close>

definition MIN_MIDI :: real where
  "MIN_MIDI = 21"

definition MAX_MIDI :: real where
  "MAX_MIDI = 108"

definition DEFAULT_ZOOM_X :: real where
  "DEFAULT_ZOOM_X = 100"

definition DEFAULT_ZOOM_Y :: real where
  "DEFAULT_ZOOM_Y = 24"

text \<open>The field \<^verbatim>\<open>id\<close> of a note is \<open>note_id\<close> here (\<open>id\<close> is the identity function of HOL).\<close>

record Note =
  note_id :: string
  midi :: real
  startTime :: real
  duration :: real
  velocity :: real
  selected :: "bool option"

record AudioAnalysisResult =
  key :: string
  scale :: string
  bpm :: real
  "notes" :: "Note list"

datatype ToolMode = POINTER | PENCIL | CUT | ZOOM

record ViewState =
  zoomX :: real
  zoomY :: real
  scrollX :: real
  scrollY :: real

section \<open>The browser objects the application holds\<close>

text \<open>
  Of a decoded \<^verbatim>\<open>AudioBuffer\<close> the program reads the duration only; of the
  \<^verbatim>\<open>AudioContext\<close> its \<^verbatim>\<open>state\<close> and its clock \<^verbatim>\<open>currentTime\<close>. The clock belongs to the
  audio hardware, so each handler that reads it takes the reading as an argument \<open>now\<close>.
  A source node remembers the buffer it plays and the offset it was started at.
\<close>

record AudioBuffer =
  buffer_duration :: real

datatype ContextState = Suspended | Running | Closed

record AudioContext =
  ctx_state :: ContextState

record SourceNode =
  source_buffer :: AudioBuffer
  source_offset :: real

record File =
  file_name :: string
  file_size :: nat
  file_type :: string

text \<open>
  What a handler does to the world outside the component state is written to a trace, in
  the order of the calls: the alert boxes, the console, the audio graph, the frame
  scheduler, and the three asynchronous services of an upload.
\<close>

datatype effect =
    Alert string
  | ConsoleError
  | NewAudioContext
  | Resume
  | CreateBufferSource
  | SourceConnect
  | SourceStart real real
  | SourceStop
  | RequestAnimationFrame
  | CancelAnimationFrame nat
  | DecodeAudio File
  | FileToBase64 File
  | AnalyzeAudio string string

section \<open>The state of the App component (App.tsx, lines 12-32)\<close>

record App =
  audioContext :: "AudioContext option"
  audioBuffer :: "AudioBuffer option"
  fileName :: "string option"
  isAnalyzing :: bool
  loadingMessage :: string
  analysis :: "AudioAnalysisResult option"
  isPlaying :: bool
  currentTime :: real
  startTimeRef :: real
  sourceNodeRef :: "SourceNode option"
  animationFrameRef :: nat
  toolMode :: ToolMode
  viewState :: ViewState
  trace :: "effect list"

definition initialApp :: App where
  "initialApp =
     \<lparr>audioContext = None, audioBuffer = None, fileName = None, isAnalyzing = False,
      loadingMessage = [], analysis = None, isPlaying = False, currentTime = 0,
      startTimeRef = 0, sourceNodeRef = None, animationFrameRef = 0, toolMode = POINTER,
      viewState = \<lparr>zoomX = DEFAULT_ZOOM_X, zoomY = DEFAULT_ZOOM_Y, scrollX = 0, scrollY = 0\<rparr>,
      trace = []\<rparr>"

section \<open>Note editing (App.tsx, lines 161-178)\<close>

text \<open>
  \<^verbatim>\<open>updateNote\<close>: without an analysis nothing happens; otherwise the analysis is copied with
  its note list mapped, each note whose id is the updated note's id replaced by it.
\<close>

definition updateNote :: "Note \<Rightarrow> App \<Rightarrow> App" where
  "updateNote updatedNote s =
     (case analysis s of
        None \<Rightarrow> s
      | Some a \<Rightarrow>
          s\<lparr>analysis :=
              Some (a\<lparr>notes := map (\<lambda>n. if note_id n = note_id updatedNote then updatedNote else n)
                                   (notes a)\<rparr>)\<rparr>)"

text \<open>
  \<^verbatim>\<open>handleSelectionChange\<close>: every note is copied with \<^verbatim>\<open>selected\<close> set to
  \<^verbatim>\<open>selectedIds.includes(n.id)\<close>.
\<close>

definition handleSelectionChange :: "string list \<Rightarrow> App \<Rightarrow> App" where
  "handleSelectionChange selectedIds s =
     (case analysis s of
        None \<Rightarrow> s
      | Some a \<Rightarrow>
          s\<lparr>analysis :=
              Some (a\<lparr>notes := map (\<lambda>n. n\<lparr>selected := Some (note_id n \<in> set selectedIds)\<rparr>)
                                   (notes a)\<rparr>)\<rparr>)"

section \<open>Transport (App.tsx, lines 84-157)\<close>

text \<open>
  \<^verbatim>\<open>play\<close> returns at once unless both the audio buffer and the audio context are there.
  Otherwise it resumes a suspended context, creates a source on the buffer, connects it
  to the output, starts it at the offset \<^verbatim>\<open>currentTime\<close>, and records
  \<^verbatim>\<open>startTimeRef = audioContext.currentTime - offset\<close>.
\<close>

definition play :: "real \<Rightarrow> App \<Rightarrow> App" where
  "play now s =
     (case audioBuffer s of
        None \<Rightarrow> s
      | Some buffer \<Rightarrow>
          (case audioContext s of
             None \<Rightarrow> s
           | Some ctx \<Rightarrow>
               let offset = currentTime s in
               s\<lparr>startTimeRef := now - offset,
                 sourceNodeRef := Some \<lparr>source_buffer = buffer, source_offset = offset\<rparr>,
                 isPlaying := True,
                 trace := trace s @ (if ctx_state ctx = Suspended then [Resume] else [])
                            @ [CreateBufferSource, SourceConnect, SourceStart 0 offset]\<rparr>))"

text \<open>
  \<^verbatim>\<open>stop\<close> stops and forgets the source node when there is one (an exception of
  \<^verbatim>\<open>source.stop()\<close> is swallowed), clears the playing flag and cancels the pending frame.
\<close>

definition stop :: "App \<Rightarrow> App" where
  "stop s =
     s\<lparr>sourceNodeRef := None,
       isPlaying := False,
       trace := trace s @ (case sourceNodeRef s of None \<Rightarrow> [] | Some node \<Rightarrow> [SourceStop])
                  @ [CancelAnimationFrame (animationFrameRef s)]\<rparr>"

definition togglePlayPause :: "real \<Rightarrow> App \<Rightarrow> App" where
  "togglePlayPause now s = (if isPlaying s then stop s else play now s)"

definition handleStop :: "App \<Rightarrow> App" where
  "handleStop s = (stop s)\<lparr>currentTime := 0\<rparr>"

text \<open>
  One run of the frame callback \<^verbatim>\<open>loop\<close>: \<open>now\<close> is the reading of the audio clock,
  \<open>frame\<close> the handle that \<^verbatim>\<open>requestAnimationFrame\<close> returns if the callback re-arms itself.
\<close>

definition loop :: "real \<Rightarrow> nat \<Rightarrow> App \<Rightarrow> App" where
  "loop now frame s =
     (if isPlaying s \<and> audioContext s \<noteq> None then
        let trackTime = now - startTimeRef s in
        if (case audioBuffer s of None \<Rightarrow> False | Some buffer \<Rightarrow> trackTime \<ge> buffer_duration buffer)
        then handleStop s
        else s\<lparr>currentTime := trackTime, animationFrameRef := frame,
               trace := trace s @ [RequestAnimationFrame]\<rparr>
      else s)"

text \<open>The effect around the loop (lines 152-156): its body arms the first frame, its cleanup cancels.\<close>

definition loopEffect :: "nat \<Rightarrow> App \<Rightarrow> App" where
  "loopEffect frame s =
     (if isPlaying s
      then s\<lparr>animationFrameRef := frame, trace := trace s @ [RequestAnimationFrame]\<rparr>
      else s)"

definition loopCleanup :: "App \<Rightarrow> App" where
  "loopCleanup s = s\<lparr>trace := trace s @ [CancelAnimationFrame (animationFrameRef s)]\<rparr>"

section \<open>Upload (App.tsx, lines 35-81)\<close>

datatype error = MissingApiKey | EmptyResponse | SyntaxError | TypeError | Rejected string

text \<open>
  The handler awaits three services. \<^verbatim>\<open>decodeAudio\<close> and \<^verbatim>\<open>fileToBase64\<close> live in
  \<^verbatim>\<open>services/audioUtils\<close>, and the transcription answers over the network, so the outcome of
  each call is an input of the model: an error when the promise rejects, the value when it
  resolves; for the transcription also the progress messages it reported meanwhile. The
  awaits are run to their end in one step. \<open>newContext\<close> is what the \<^verbatim>\<open>AudioContext\<close>
  constructor returns.
\<close>

record UploadEnv =
  newContext :: AudioContext
  decodeAudio :: "error + AudioBuffer"
  fileToBase64 :: "error + string"
  analyzeProgress :: "string list"
  analyzeOutcome :: "error + AudioAnalysisResult"

definition getAudioContext :: "AudioContext \<Rightarrow> App \<Rightarrow> App" where
  "getAudioContext fresh s =
     (case audioContext s of
        None \<Rightarrow> s\<lparr>audioContext := Some fresh, trace := trace s @ [NewAudioContext]\<rparr>
      | Some ctx \<Rightarrow> s)"

definition oversizeMessage :: string where
  "oversizeMessage =
     ''El archivo es demasiado grande (>50MB). Para grabaciones largas (hasta 30 min), por favor usa un formato comprimido como MP3.''"

definition failureMessage :: string where
  "failureMessage = ''Error procesando audio. Revisa la consola y la clave API.''"

text \<open>The \<^verbatim>\<open>catch\<close> block followed by the \<^verbatim>\<open>finally\<close> block.\<close>

definition uploadFailed :: "App \<Rightarrow> App" where
  "uploadFailed s = s\<lparr>isAnalyzing := False, trace := trace s @ [ConsoleError, Alert failureMessage]\<rparr>"

definition handleFileUpload :: "File option \<Rightarrow> UploadEnv \<Rightarrow> App \<Rightarrow> App" where
  "handleFileUpload file env s =
     (case file of
        None \<Rightarrow> s
      | Some f \<Rightarrow>
          if file_size f > 50 * 1024 * 1024 then s\<lparr>trace := trace s @ [Alert oversizeMessage]\<rparr>
          else
            let s1 = s\<lparr>fileName := Some (file_name f), isAnalyzing := True,
                       loadingMessage := ''Decodificando datos de audio...''\<rparr>;
                s2 = getAudioContext (newContext env) s1;
                s3 = s2\<lparr>trace := trace s2 @ [DecodeAudio f]\<rparr>
            in
            (case decodeAudio env of
               Inl e \<Rightarrow> uploadFailed s3
             | Inr buffer \<Rightarrow>
                 let s4 = s3\<lparr>audioBuffer := Some buffer,
                            loadingMessage := ''Preparando audio para IA Gemini...'',
                            trace := trace s3 @ [FileToBase64 f]\<rparr>
                 in
                 (case fileToBase64 env of
                    Inl e \<Rightarrow> uploadFailed s4
                  | Inr base64 \<Rightarrow>
                      let s5 = s4\<lparr>loadingMessage := last (loadingMessage s4 # analyzeProgress env),
                                 trace := trace s4 @ [AnalyzeAudio base64 (file_type f)]\<rparr>
                      in
                      (case analyzeOutcome env of
                         Inl e \<Rightarrow> uploadFailed s5
                       | Inr result \<Rightarrow> s5\<lparr>analysis := Some result, isAnalyzing := False\<rparr>))))"

section \<open>The piano roll (the PianoRoll component)\<close>

record DragState =
  drag_id :: string
  startX :: real
  startY :: real
  originalTime :: real
  originalMidi :: real

record MouseEvent =
  clientX :: real
  clientY :: real

definition NOTE_HEIGHT :: "ViewState \<Rightarrow> real" where
  "NOTE_HEIGHT vs = zoomY vs"

definition PIXELS_PER_SECOND :: "ViewState \<Rightarrow> real" where
  "PIXELS_PER_SECOND vs = zoomX vs"

definition TOTAL_HEIGHT :: "ViewState \<Rightarrow> real" where
  "TOTAL_HEIGHT vs = (MAX_MIDI - MIN_MIDI + 1) * NOTE_HEIGHT vs"

text \<open>\<^verbatim>\<open>Math.round\<close>: the nearest integer, a half rounded up.\<close>

definition Math_round :: "real \<Rightarrow> real" where
  "Math_round x = of_int \<lfloor>x + 1 / 2\<rfloor>"

text \<open>
  The handlers of the component are functions of its props and of its own drag state. A
  handler that calls a callback of the parent returns the argument of the call, \<open>None\<close>
  when it does not call.

  \<^verbatim>\<open>handleNoteMouseDown\<close>: with the pointer tool it asks the parent to select the note and
  records the drag; with another tool it does nothing.
\<close>

definition handleNoteMouseDown ::
    "MouseEvent \<Rightarrow> Note \<Rightarrow> ToolMode \<Rightarrow> DragState option \<Rightarrow> string list option \<times> DragState option" where
  "handleNoteMouseDown e note tool dragState =
     (if tool = POINTER
      then (Some [note_id note],
            Some \<lparr>drag_id = note_id note, startX = clientX e, startY = clientY e,
                  originalTime = startTime note, originalMidi = midi note\<rparr>)
      else (None, dragState))"

definition handleMouseMove ::
    "MouseEvent \<Rightarrow> Note list \<Rightarrow> ViewState \<Rightarrow> ToolMode \<Rightarrow> DragState option \<Rightarrow> Note option" where
  "handleMouseMove e ns vs tool dragState =
     (case dragState of
        None \<Rightarrow> None
      | Some d \<Rightarrow>
          if tool = POINTER then
            let dx = clientX e - startX d;
                dy = clientY e - startY d;
                timeDelta = dx / PIXELS_PER_SECOND vs;
                midiDelta = - Math_round (dy / NOTE_HEIGHT vs);
                newTime = max 0 (originalTime d + timeDelta);
                newMidi = min MAX_MIDI (max MIN_MIDI (originalMidi d + midiDelta))
            in
            (case find (\<lambda>n. note_id n = drag_id d) ns of
               None \<Rightarrow> None
             | Some updatedNote \<Rightarrow> Some (updatedNote\<lparr>startTime := newTime, midi := newMidi\<rparr>))
          else None)"

definition handleMouseUp :: "DragState option" where
  "handleMouseUp = None"

definition handleScroll :: "real \<Rightarrow> real \<Rightarrow> ViewState \<Rightarrow> ViewState" where
  "handleScroll scrollLeft scrollTop prev = prev\<lparr>scrollX := scrollLeft, scrollY := scrollTop\<rparr>"

text \<open>
  The App renders the piano roll when it has an analysis and an audio buffer (App.tsx,
  lines 243-253), with \<^verbatim>\<open>notes = analysis.notes\<close>, \<^verbatim>\<open>onNoteUpdate = updateNote\<close> and
  \<^verbatim>\<open>onSelectionChange = handleSelectionChange\<close>. The two events of a drag, on the pair of
  the App state and the drag state:
\<close>

definition noteMouseDown :: "MouseEvent \<Rightarrow> Note \<Rightarrow> App \<times> DragState option \<Rightarrow> App \<times> DragState option" where
  "noteMouseDown e note w =
     (case w of (s, dragState) \<Rightarrow>
        if analysis s \<noteq> None \<and> audioBuffer s \<noteq> None then
          (case handleNoteMouseDown e note (toolMode s) dragState of
             (None, dragState') \<Rightarrow> (s, dragState')
           | (Some ids, dragState') \<Rightarrow> (handleSelectionChange ids s, dragState'))
        else w)"

definition mouseMove :: "MouseEvent \<Rightarrow> App \<times> DragState option \<Rightarrow> App \<times> DragState option" where
  "mouseMove e w =
     (case w of (s, dragState) \<Rightarrow>
        (case analysis s of
           None \<Rightarrow> w
         | Some a \<Rightarrow>
             if audioBuffer s \<noteq> None then
               (case handleMouseMove e (notes a) (viewState s) (toolMode s) dragState of
                  None \<Rightarrow> w
                | Some updatedNote \<Rightarrow> (updateNote updatedNote s, dragState))
             else w))"

subsection \<open>Geometry\<close>

text \<open>
  A note block is placed in the grid at \<^verbatim>\<open>top = (MAX_MIDI - note.midi) * NOTE_HEIGHT\<close>,
  \<^verbatim>\<open>left = note.startTime * PIXELS_PER_SECOND\<close>, with
  \<^verbatim>\<open>width = note.duration * PIXELS_PER_SECOND\<close> (lines 303-305). The key column is placed at
  \<^verbatim>\<open>top: -viewState.scrollY\<close> (line 253); its rows, one per pitch from \<^verbatim>\<open>MAX_MIDI\<close> down, are
  \<^verbatim>\<open>NOTE_HEIGHT\<close> high each (lines 256-265).
\<close>

definition noteTop :: "ViewState \<Rightarrow> real \<Rightarrow> real" where
  "noteTop vs pitch = (MAX_MIDI - pitch) * NOTE_HEIGHT vs"

definition noteLeft :: "ViewState \<Rightarrow> real \<Rightarrow> real" where
  "noteLeft vs t = t * PIXELS_PER_SECOND vs"

definition noteWidth :: "ViewState \<Rightarrow> real \<Rightarrow> real" where
  "noteWidth vs d = d * PIXELS_PER_SECOND vs"

definition keysTop :: "ViewState \<Rightarrow> real" where
  "keysTop vs = - scrollY vs"

definition keyRows :: "ViewState \<Rightarrow> (real \<times> real) list" where
  "keyRows vs = map (\<lambda>i. (MAX_MIDI - real i, NOTE_HEIGHT vs)) [0 ..< nat \<lfloor>MAX_MIDI - MIN_MIDI + 1\<rfloor>]"

text \<open>
  Block layout: children of the given heights, one under the other from \<open>y\<close> on, have
  these tops.
\<close>

fun stackTops :: "real \<Rightarrow> real list \<Rightarrow> real list" where
  "stackTops y [] = []"
| "stackTops y (h # hs) = y # stackTops (y + h) hs"

definition keyRowTops :: "ViewState \<Rightarrow> (real \<times> real) list" where
  "keyRowTops vs = zip (map fst (keyRows vs)) (stackTops (keysTop vs) (map snd (keyRows vs)))"

text \<open>
  The vertical pixel coordinate of a pitch in the viewport: the offset of its row,
  shifted by the scroll offset. It is where the key column shows the pitch, and where
  the grid, scrolled by \<^verbatim>\<open>scrollTop = scrollY\<close>, shows a note of that pitch.
\<close>

definition pixelY :: "ViewState \<Rightarrow> real \<Rightarrow> real" where
  "pixelY vs pitch = keysTop vs + noteTop vs pitch"

section \<open>The transcription service (services/geminiService.ts)\<close>

text \<open>
  The value \<^verbatim>\<open>JSON.parse\<close> returns. An object lists its own properties in their order,
  each name once. \<^verbatim>\<open>undefined\<close>, which no JSON text denotes, is the \<open>None\<close> of an option.
\<close>

datatype json =
    JNull
  | JBool bool
  | JNum real
  | JStr string
  | JArr "json list"
  | JObj "(string \<times> json) list"

text \<open>
  Reading a property of a value that is neither \<^verbatim>\<open>null\<close> nor \<^verbatim>\<open>undefined\<close>. The code reads
  \<^verbatim>\<open>notes\<close>, \<^verbatim>\<open>key\<close>, \<^verbatim>\<open>scale\<close> and \<^verbatim>\<open>bpm\<close>, names that no prototype defines: the
  property is there when the value is an object that has it.
\<close>

fun getProp :: "json \<Rightarrow> string \<Rightarrow> json option" where
  "getProp (JObj kvs) k = map_of kvs k"
| "getProp v k = None"

text \<open>Truthiness, and \<^verbatim>\<open>a || b\<close> with a literal \<open>b\<close>.\<close>

fun truthy :: "json option \<Rightarrow> bool" where
  "truthy None = False"
| "truthy (Some JNull) = False"
| "truthy (Some (JBool b)) = b"
| "truthy (Some (JNum x)) = (x \<noteq> 0)"
| "truthy (Some (JStr t)) = (t \<noteq> [])"
| "truthy (Some (JArr xs)) = True"
| "truthy (Some (JObj kvs)) = True"

definition orElse :: "json option \<Rightarrow> json \<Rightarrow> json" where
  "orElse v fallback = (case v of None \<Rightarrow> fallback | Some x \<Rightarrow> if truthy v then x else fallback)"

text \<open>The decimal digits of a number, as a template literal prints an index or a time stamp.\<close>

fun toString :: "nat \<Rightarrow> string" where
  "toString n =
     (if n < 10 then [char_of (48 + n)] else toString (n div 10) @ [char_of (48 + n mod 10)])"

declare toString.simps [simp del]

text \<open>
  The own enumerable properties that \<^verbatim>\<open>{...n}\<close> copies: those of an object, the indexed
  elements of an array, the indexed characters of a string, none of another value.
\<close>

fun spread :: "json \<Rightarrow> (string \<times> json) list" where
  "spread (JObj kvs) = kvs"
| "spread (JArr xs) = zip (map toString [0 ..< length xs]) xs"
| "spread (JStr t) = zip (map toString [0 ..< length t]) (map (\<lambda>c. JStr [c]) t)"
| "spread v = []"

text \<open>
  The environment of one call: the API key of the process, how the request to the model
  ends (rejected, or answered with a \<^verbatim>\<open>response.text\<close> that may be undefined), the parser,
  and the clock that \<^verbatim>\<open>Date.now()\<close> reads when the note at an index is given its id.
\<close>

record GeminiEnv =
  API_KEY :: "string option"
  generateContent :: "error + string option"
  JSON_parse :: "string \<Rightarrow> error + json"
  Date_now :: "nat \<Rightarrow> nat"

datatype report = Progress string | Request string string string | ConsoleErrorLog error

definition modelId :: string where
  "modelId = ''gemini-2.5-flash''"

definition sendingMessage :: string where
  "sendingMessage = ''Enviando audio al motor neural de Gemini...''"

definition processingMessage :: string where
  "processingMessage = ''Procesando resultados del an'' @ [CHR 0xC3, CHR 0xA1] @ ''lisis...''"

text \<open>
  \<^verbatim>\<open>{...n, id: `note-${index}-${Date.now()}`, selected: false}\<close>: the two properties are
  overwritten in place when the note has them and appended when it has not.
\<close>

definition hydrate :: "GeminiEnv \<Rightarrow> nat \<Rightarrow> json \<Rightarrow> json" where
  "hydrate env index n =
     JObj (AList.update ''selected'' (JBool False)
            (AList.update ''id'' (JStr (''note-'' @ toString index @ ''-'' @ toString (Date_now env index)))
               (spread n)))"

text \<open>
  \<^verbatim>\<open>data.notes.map(...)\<close>: reading \<^verbatim>\<open>notes\<close> of \<^verbatim>\<open>null\<close> throws, and so does calling \<^verbatim>\<open>map\<close>
  on undefined, on \<^verbatim>\<open>null\<close>, and on a value that has no such method; of the values of
  \<^verbatim>\<open>JSON.parse\<close> only an array has it.
\<close>

definition hydrateNotes :: "GeminiEnv \<Rightarrow> json \<Rightarrow> error + json list" where
  "hydrateNotes env data =
     (case data of
        JNull \<Rightarrow> Inl TypeError
      | _ \<Rightarrow>
          (case getProp data ''notes'' of
             Some (JArr xs) \<Rightarrow> Inr (map (\<lambda>(index, n). hydrate env index n) (zip [0 ..< length xs] xs))
           | _ \<Rightarrow> Inl TypeError))"

text \<open>
  The call returns what it reported (progress messages when \<open>onProgress\<close> is given, the
  request, the error logged by the \<^verbatim>\<open>catch\<close> block before it throws the error again) and
  how it ends: the error thrown, or the object returned.
\<close>

definition analyzeAudioWithGemini ::
    "GeminiEnv \<Rightarrow> string \<Rightarrow> string \<Rightarrow> bool \<Rightarrow> report list \<times> (error + json)" where
  "analyzeAudioWithGemini env base64Audio mimeType onProgress =
     (if API_KEY env = None \<or> API_KEY env = Some [] then ([], Inl MissingApiKey)
      else
        let sent = (if onProgress then [Progress sendingMessage] else [])
                     @ [Request modelId mimeType base64Audio]
        in
        (case generateContent env of
           Inl e \<Rightarrow> (sent @ [ConsoleErrorLog e], Inl e)
         | Inr response_text \<Rightarrow>
             let answered = sent @ (if onProgress then [Progress processingMessage] else []) in
             (case response_text of
                None \<Rightarrow> (answered @ [ConsoleErrorLog EmptyResponse], Inl EmptyResponse)
              | Some t \<Rightarrow>
                  if t = [] then (answered @ [ConsoleErrorLog EmptyResponse], Inl EmptyResponse)
                  else
                    (case JSON_parse env t of
                       Inl e \<Rightarrow> (answered @ [ConsoleErrorLog e], Inl e)
                     | Inr data \<Rightarrow>
                         (case hydrateNotes env data of
                            Inl e \<Rightarrow> (answered @ [ConsoleErrorLog e], Inl e)
                          | Inr ns \<Rightarrow>
                              (answered,
                               Inr (JObj [(''key'', orElse (getProp data ''key'') (JStr ''Desconocido'')),
                                          (''scale'', orElse (getProp data ''scale'') (JStr ''Desconocido'')),
                                          (''bpm'', orElse (getProp data ''bpm'') (JNum 120)),
                                          (''notes'', JArr ns)])))))))"

section \<open>Sample states\<close>

text \<open>
  A 40-second clip loaded and transcribed into one note, as the upload handler leaves the
  state when all three services succeed; the data that the examples below run on.
\<close>

definition loadedApp :: App where
  "loadedApp =
     initialApp\<lparr>audioContext := Some \<lparr>ctx_state = Running\<rparr>,
                audioBuffer := Some \<lparr>buffer_duration = 40\<rparr>,
                fileName := Some ''clip.mp3''\<rparr>"

definition scenarioNote :: Note where
  "scenarioNote =
     \<lparr>note_id = ''note-0-1700000000000'', midi = 60, startTime = 5, duration = 2,
      velocity = 0.8, selected = Some False\<rparr>"

definition scenarioApp :: App where
  "scenarioApp =
     loadedApp\<lparr>analysis := Some \<lparr>key = ''C Major'', scale = ''Major'', bpm = 120,
                                notes = [scenarioNote]\<rparr>\<rparr>"

definition pressAt :: MouseEvent where
  "pressAt = \<lparr>clientX = 600, clientY = 300\<rparr>"

definition moveTo :: MouseEvent where
  "moveTo = \<lparr>clientX = 550, clientY = 348\<rparr>"

definition scenarioDrag :: DragState where
  "scenarioDrag =
     \<lparr>drag_id = ''note-0-1700000000000'', startX = 600, startY = 300,
      originalTime = 5, originalMidi = 60\<rparr>"

definition noteA :: Note where
  "noteA = \<lparr>note_id = ''a'', midi = 60, startTime = 5, duration = 2, velocity = 0.8,
            selected = Some False\<rparr>"

definition noteB :: Note where
  "noteB = \<lparr>note_id = ''b'', midi = 64, startTime = 1, duration = 1, velocity = 0.5,
            selected = None\<rparr>"

definition noteC :: Note where
  "noteC = \<lparr>note_id = ''c'', midi = 67, startTime = 0, duration = 3, velocity = 1,
            selected = Some True\<rparr>"

definition threeNotes :: AudioAnalysisResult where
  "threeNotes = \<lparr>key = ''A Minor'', scale = ''Minor'', bpm = 90, notes = [noteA, noteB, noteC]\<rparr>"

definition threeNotesApp :: App where
  "threeNotesApp = loadedApp\<lparr>analysis := Some threeNotes\<rparr>"

definition movedB :: Note where
  "movedB = \<lparr>note_id = ''b'', midi = 65, startTime = 2, duration = 1, velocity = 0.5,
             selected = Some True\<rparr>"

text \<open>Playback started at clock 100 from position 0, last drawn at clock 139.5.\<close>

definition playingApp :: App where
  "playingApp = loop 139.5 2 (loopEffect 1 (play 100 loadedApp))"

text \<open>The same clip paused at position 3.\<close>

definition pausedApp :: App where
  "pausedApp = loadedApp\<lparr>currentTime := 3\<rparr>"

definition bigFile :: File where
  "bigFile = \<lparr>file_name = ''concert.wav'', file_size = 60 * 1024 * 1024, file_type = ''audio/wav''\<rparr>"

definition sampleUploadEnv :: UploadEnv where
  "sampleUploadEnv =
     \<lparr>newContext = \<lparr>ctx_state = Suspended\<rparr>,
      decodeAudio = Inr \<lparr>buffer_duration = 40\<rparr>,
      fileToBase64 = Inr ''UklGRg=='',
      analyzeProgress = [],
      analyzeOutcome = Inr threeNotes\<rparr>"

text \<open>
  Two answers of the model: an object with one note and neither key, scale nor tempo, and
  an object whose \<^verbatim>\<open>notes\<close> is a string.
\<close>

definition bareNotes :: json where
  "bareNotes =
     JObj [(''notes'', JArr [JObj [(''midi'', JNum 60), (''startTime'', JNum 5),
                                   (''duration'', JNum 2), (''velocity'', JNum 0.8)]])]"

definition notesNotArray :: json where
  "notesNotArray = JObj [(''key'', JStr ''C Major''), (''notes'', JStr ''none'')]"

definition answering :: "json \<Rightarrow> GeminiEnv" where
  "answering data =
     \<lparr>API_KEY = Some ''secret'',
      generateContent = Inr (Some ''(the JSON text of the answer)''),
      JSON_parse = (\<lambda>t. Inr data),
      Date_now = (\<lambda>index. 1700000000000)\<rparr>"

text \<open>A run of the frame loop: the callbacks in the order they fire, each with its clock reading.\<close>

fun runFrames :: "(real \<times> nat) list \<Rightarrow> App \<Rightarrow> App" where
  "runFrames [] s = s"
| "runFrames ((now, frame) # rest) s = runFrames rest (loop now frame s)"

section \<open>Helper lemmas\<close>

lemma Math_round_round: "Math_round x = of_int (round x)"
  by (simp add: Math_round_def round_def)

lemma find_by_id:
  "k \<in> note_id ` set ns \<Longrightarrow> \<exists>n. find (\<lambda>n. note_id n = k) ns = Some n \<and> note_id n = k"
  by (induction ns) auto

lemma stackTops_length [simp]: "length (stackTops y hs) = length hs"
  by (induction hs arbitrary: y) auto

lemma stackTops_replicate_nth:
  "i < n \<Longrightarrow> stackTops y (replicate n h) ! i = y + real i * h"
proof (induction n arbitrary: y i)
  case 0
  then show ?case by simp
next
  case (Suc n)
  show ?case
  proof (cases i)
    case 0
    then show ?thesis by simp
  next
    case (Suc i')
    with Suc.prems have "i' < n" by simp
    from Suc.IH[OF this, of "y + h"] Suc show ?thesis
      by (simp add: algebra_simps)
  qed
qed

lemma keyRows_count: "nat \<lfloor>MAX_MIDI - MIN_MIDI + 1\<rfloor> = 88"
  by (simp add: MAX_MIDI_def MIN_MIDI_def)

text \<open>Row \<open>i\<close> of the key column shows the pitch \<open>MAX_MIDI - i\<close> at its pixel coordinate.\<close>

lemma keyRowTops_nth:
  assumes "i < 88"
  shows "keyRowTops vs ! i = (MAX_MIDI - real i, pixelY vs (MAX_MIDI - real i))"
proof -
  have heights: "map snd (keyRows vs) = replicate 88 (NOTE_HEIGHT vs)"
    unfolding keyRows_def keyRows_count by (simp add: comp_def map_replicate_const del: upt_Suc)
  have pitches: "map fst (keyRows vs) = map (\<lambda>j. MAX_MIDI - real j) [0 ..< 88]"
    unfolding keyRows_def keyRows_count by (simp add: comp_def del: upt_Suc)
  have "stackTops (keysTop vs) (map snd (keyRows vs)) ! i = keysTop vs + real i * NOTE_HEIGHT vs"
    unfolding heights using assms by (rule stackTops_replicate_nth)
  then show ?thesis
    using assms by (simp add: keyRowTops_def pitches heights pixelY_def noteTop_def del: upt_Suc)
qed

text \<open>The zoom factors never change: the only writer of the view state keeps them.\<close>

lemma handleScroll_keeps_zoom:
  "zoomX (handleScroll l t vs) = zoomX vs \<and> zoomY (handleScroll l t vs) = zoomY vs"
  by (simp add: handleScroll_def)

text \<open>A frame that finds the track unfinished publishes the elapsed time and keeps the epoch.\<close>

lemma loop_publishes:
  assumes "isPlaying s" "audioContext s = Some ctx" "audioBuffer s = Some b"
    and "now - startTimeRef s < buffer_duration b"
  shows "isPlaying (loop now frame s) \<and> currentTime (loop now frame s) = now - startTimeRef s
       \<and> startTimeRef (loop now frame s) = startTimeRef s
       \<and> audioContext (loop now frame s) = Some ctx \<and> audioBuffer (loop now frame s) = Some b"
  using assms by (simp add: loop_def Let_def)

lemma runFrames_publishes:
  assumes "isPlaying s" "audioContext s = Some ctx" "audioBuffer s = Some b"
    and "\<forall>(now, frame) \<in> set fs. now - startTimeRef s < buffer_duration b"
    and "fs \<noteq> []"
  shows "isPlaying (runFrames fs s)
       \<and> currentTime (runFrames fs s) = fst (last fs) - startTimeRef s"
  using assms
proof (induction fs arbitrary: s)
  case Nil
  then show ?case by simp
next
  case (Cons f fs)
  obtain now frame where f: "f = (now, frame)" by (cases f)
  have less: "now - startTimeRef s < buffer_duration b"
    using Cons.prems(4) f by simp
  note step = loop_publishes[OF Cons.prems(1,2,3) less, of frame]
  show ?case
  proof (cases "fs = []")
    case True
    then show ?thesis using step f by simp
  next
    case False
    have rest: "\<forall>(now', frame') \<in> set fs.
                  now' - startTimeRef (loop now frame s) < buffer_duration b"
      using Cons.prems(4) step by auto
    from Cons.IH[of "loop now frame s", OF _ _ _ rest False] step False f
    show ?thesis by simp
  qed
qed

lemma play_starts:
  assumes "audioBuffer s = Some b" "audioContext s = Some ctx"
  shows "isPlaying (play now s) \<and> startTimeRef (play now s) = now - currentTime s
       \<and> currentTime (play now s) = currentTime s
       \<and> audioContext (play now s) = Some ctx \<and> audioBuffer (play now s) = Some b"
  using assms by (simp add: play_def Let_def)

lemma hydrateNotes_array:
  "getProp data ''notes'' = Some (JArr xs) \<Longrightarrow>
   hydrateNotes env data = Inr (map (\<lambda>(index, n). hydrate env index n) (zip [0 ..< length xs] xs))"
  by (cases data) (simp_all add: hydrateNotes_def)

lemma hydrateNotes_fails:
  "\<forall>xs. getProp data ''notes'' \<noteq> Some (JArr xs) \<Longrightarrow> hydrateNotes env data = Inl TypeError"
  by (cases data) (auto simp: hydrateNotes_def split: option.splits json.splits)

lemma orElse_missing: "orElse None fallback = fallback"
  by (simp add: orElse_def)


section \<open>Dragging a note\<close>

text \<open>
  Claim C1. With the pointer tool, a press on a note records the note's id, the pointer
  position and the note's start time and pitch as the drag state. While that drag state
  \<open>d\<close> is active, the piano roll is shown with the pointer tool, the dragged note is in the
  collection and both zoom factors are positive, a pointer move to \<open>e\<close> rewrites the
  collection in place: every note with the dragged id gets the pitch
  \<open>originalMidi d + - round (dy / zoomY)\<close> clamped into \<open>[21, 108]\<close> and the start time
  \<open>originalTime d + dx / zoomX\<close> clamped into \<open>[0, \<infinity>)\<close>, where
  \<open>dx = clientX e - startX d\<close> and \<open>dy = clientY e - startY d\<close>; every other note stays as it
  is, and the drag state stays active.
\<close>

theorem drag_update_clamped:
  assumes tool: "toolMode s = POINTER"
    and an: "analysis s = Some a"
    and buf: "audioBuffer s \<noteq> None"
    and ex: "drag_id d \<in> note_id ` set (notes a)"
    and zx: "0 < zoomX (viewState s)"
    and zy: "0 < zoomY (viewState s)"
  shows "snd (noteMouseDown e0 n0 (s, d0)) =
           Some \<lparr>drag_id = note_id n0, startX = clientX e0, startY = clientY e0,
                 originalTime = startTime n0, originalMidi = midi n0\<rparr>
       \<and> (\<exists>a'. mouseMove e (s, Some d) = (s\<lparr>analysis := Some a'\<rparr>, Some d)
          \<and> length (notes a') = length (notes a)
          \<and> (\<forall>i < length (notes a).
                if note_id (notes a ! i) = drag_id d
                then note_id (notes a' ! i) = drag_id d
                   \<and> midi (notes a' ! i) =
                       (let pitch = originalMidi d
                                      + - of_int (round ((clientY e - startY d) / zoomY (viewState s)))
                        in if pitch < 21 then 21 else if 108 < pitch then 108 else pitch)
                   \<and> startTime (notes a' ! i) =
                       (let t = originalTime d + (clientX e - startX d) / zoomX (viewState s)
                        in if t < 0 then 0 else t)
                   \<and> 21 \<le> midi (notes a' ! i) \<and> midi (notes a' ! i) \<le> 108
                   \<and> 0 \<le> startTime (notes a' ! i)
                else notes a' ! i = notes a ! i))"
proof (rule conjI)
  show "snd (noteMouseDown e0 n0 (s, d0)) =
           Some \<lparr>drag_id = note_id n0, startX = clientX e0, startY = clientY e0,
                 originalTime = startTime n0, originalMidi = midi n0\<rparr>"
    using tool an buf by (simp add: noteMouseDown_def handleNoteMouseDown_def)
next
  from find_by_id[OF ex] obtain n where
    f: "find (\<lambda>n. note_id n = drag_id d) (notes a) = Some n" and nid: "note_id n = drag_id d"
    by blast
  define newTime where
    "newTime = max 0 (originalTime d + (clientX e - startX d) / zoomX (viewState s))"
  define newMidi where
    "newMidi = min MAX_MIDI (max MIN_MIDI
       (originalMidi d + - Math_round ((clientY e - startY d) / zoomY (viewState s))))"
  define u where "u = n\<lparr>startTime := newTime, midi := newMidi\<rparr>"
  define a' where
    "a' = a\<lparr>notes := map (\<lambda>m. if note_id m = note_id u then u else m) (notes a)\<rparr>"
  have hm: "handleMouseMove e (notes a) (viewState s) POINTER (Some d) = Some u"
    by (simp add: handleMouseMove_def f u_def newTime_def newMidi_def Let_def
        PIXELS_PER_SECOND_def NOTE_HEIGHT_def)
  have uid: "note_id u = drag_id d"
    by (simp add: u_def nid)
  have mm: "mouseMove e (s, Some d) = (s\<lparr>analysis := Some a'\<rparr>, Some d)"
    using an buf tool hm by (simp add: mouseMove_def updateNote_def a'_def)
  have midi_u: "midi u =
      (let pitch = originalMidi d + - of_int (round ((clientY e - startY d) / zoomY (viewState s)))
       in if pitch < 21 then 21 else if 108 < pitch then 108 else pitch)"
    by (simp add: u_def newMidi_def MAX_MIDI_def MIN_MIDI_def Math_round_round Let_def
        min_def max_def)
  have time_u: "startTime u =
      (let t = originalTime d + (clientX e - startX d) / zoomX (viewState s)
       in if t < 0 then 0 else t)"
    by (simp add: u_def newTime_def Let_def max_def)
  have rng: "21 \<le> midi u \<and> midi u \<le> 108 \<and> 0 \<le> startTime u"
    by (simp add: u_def newMidi_def newTime_def MAX_MIDI_def MIN_MIDI_def)
  have nth: "\<forall>i < length (notes a).
      notes a' ! i = (if note_id (notes a ! i) = drag_id d then u else notes a ! i)"
    by (simp add: a'_def uid)
  have len: "length (notes a') = length (notes a)"
    by (simp add: a'_def)
  have each: "\<forall>i < length (notes a).
                if note_id (notes a ! i) = drag_id d
                then note_id (notes a' ! i) = drag_id d
                   \<and> midi (notes a' ! i) =
                       (let pitch = originalMidi d
                                      + - of_int (round ((clientY e - startY d) / zoomY (viewState s)))
                        in if pitch < 21 then 21 else if 108 < pitch then 108 else pitch)
                   \<and> startTime (notes a' ! i) =
                       (let t = originalTime d + (clientX e - startX d) / zoomX (viewState s)
                        in if t < 0 then 0 else t)
                   \<and> 21 \<le> midi (notes a' ! i) \<and> midi (notes a' ! i) \<le> 108
                   \<and> 0 \<le> startTime (notes a' ! i)
                else notes a' ! i = notes a ! i"
  proof (intro allI impI)
    fix i assume "i < length (notes a)"
    with nth have "notes a' ! i = (if note_id (notes a ! i) = drag_id d then u else notes a ! i)"
      by blast
    then show "if note_id (notes a ! i) = drag_id d
                then note_id (notes a' ! i) = drag_id d
                   \<and> midi (notes a' ! i) =
                       (let pitch = originalMidi d
                                      + - of_int (round ((clientY e - startY d) / zoomY (viewState s)))
                        in if pitch < 21 then 21 else if 108 < pitch then 108 else pitch)
                   \<and> startTime (notes a' ! i) =
                       (let t = originalTime d + (clientX e - startX d) / zoomX (viewState s)
                        in if t < 0 then 0 else t)
                   \<and> 21 \<le> midi (notes a' ! i) \<and> midi (notes a' ! i) \<le> 108
                   \<and> 0 \<le> startTime (notes a' ! i)
                else notes a' ! i = notes a ! i"
      using uid midi_u time_u rng by (cases "note_id (notes a ! i) = drag_id d") simp_all
  qed
  from mm len each show "\<exists>a'. mouseMove e (s, Some d) = (s\<lparr>analysis := Some a'\<rparr>, Some d)
          \<and> length (notes a') = length (notes a)
          \<and> (\<forall>i < length (notes a).
                if note_id (notes a ! i) = drag_id d
                then note_id (notes a' ! i) = drag_id d
                   \<and> midi (notes a' ! i) =
                       (let pitch = originalMidi d
                                      + - of_int (round ((clientY e - startY d) / zoomY (viewState s)))
                        in if pitch < 21 then 21 else if 108 < pitch then 108 else pitch)
                   \<and> startTime (notes a' ! i) =
                       (let t = originalTime d + (clientX e - startX d) / zoomX (viewState s)
                        in if t < 0 then 0 else t)
                   \<and> 21 \<le> midi (notes a' ! i) \<and> midi (notes a' ! i) \<le> 108
                   \<and> 0 \<le> startTime (notes a' ! i)
                else notes a' ! i = notes a ! i)"
    by blast
qed

text \<open>
  The scenario of the specification: the note at 5 s with pitch 60, pressed at (600, 300)
  and dragged to (550, 348) at the default zoom of 100 by 24, ends at 4.5 s with pitch 58.
\<close>

theorem drag_update_clamped_witness:
  "toolMode scenarioApp = POINTER
   \<and> audioBuffer scenarioApp \<noteq> None
   \<and> zoomX (viewState scenarioApp) = 100 \<and> zoomY (viewState scenarioApp) = 24
   \<and> snd (noteMouseDown pressAt scenarioNote (scenarioApp, None)) = Some scenarioDrag
   \<and> map_option (\<lambda>a. map (\<lambda>n. (note_id n, startTime n, midi n)) (notes a))
        (analysis (fst (mouseMove moveTo (noteMouseDown pressAt scenarioNote (scenarioApp, None)))))
       = Some [(''note-0-1700000000000'', 4.5, 58)]"
proof -
  define pressed where "pressed = handleSelectionChange [note_id scenarioNote] scenarioApp"
  define a where "a = \<lparr>key = ''C Major'', scale = ''Major'', bpm = 120,
                        notes = [scenarioNote\<lparr>selected := Some True\<rparr>]\<rparr>"
  have down: "noteMouseDown pressAt scenarioNote (scenarioApp, None) = (pressed, Some scenarioDrag)"
    by (simp add: noteMouseDown_def handleNoteMouseDown_def scenarioApp_def loadedApp_def
        initialApp_def pressed_def scenarioDrag_def scenarioNote_def pressAt_def)
  have tool: "toolMode pressed = POINTER"
    by (simp add: pressed_def handleSelectionChange_def scenarioApp_def loadedApp_def initialApp_def)
  have an: "analysis pressed = Some a"
    by (simp add: pressed_def handleSelectionChange_def scenarioApp_def loadedApp_def
        initialApp_def a_def scenarioNote_def)
  have buf: "audioBuffer pressed \<noteq> None"
    by (simp add: pressed_def handleSelectionChange_def scenarioApp_def loadedApp_def initialApp_def)
  have ex: "drag_id scenarioDrag \<in> note_id ` set (notes a)"
    by (simp add: a_def scenarioDrag_def scenarioNote_def)
  have vs: "viewState pressed = \<lparr>zoomX = 100, zoomY = 24, scrollX = 0, scrollY = 0\<rparr>"
    by (simp add: pressed_def handleSelectionChange_def scenarioApp_def loadedApp_def
        initialApp_def DEFAULT_ZOOM_X_def DEFAULT_ZOOM_Y_def)
  have zx: "0 < zoomX (viewState pressed)" and zy: "0 < zoomY (viewState pressed)"
    by (simp_all add: vs)
  from drag_update_clamped[OF tool an buf ex zx zy, of moveTo]
  obtain a' where
    mm: "mouseMove moveTo (pressed, Some scenarioDrag) = (pressed\<lparr>analysis := Some a'\<rparr>, Some scenarioDrag)"
    and len: "length (notes a') = length (notes a)"
    and each: "\<forall>i < length (notes a).
                if note_id (notes a ! i) = drag_id scenarioDrag
                then note_id (notes a' ! i) = drag_id scenarioDrag
                   \<and> midi (notes a' ! i) =
                       (let pitch = originalMidi scenarioDrag
                                      + - of_int (round ((clientY moveTo - startY scenarioDrag) / zoomY (viewState pressed)))
                        in if pitch < 21 then 21 else if 108 < pitch then 108 else pitch)
                   \<and> startTime (notes a' ! i) =
                       (let t = originalTime scenarioDrag + (clientX moveTo - startX scenarioDrag) / zoomX (viewState pressed)
                        in if t < 0 then 0 else t)
                   \<and> 21 \<le> midi (notes a' ! i) \<and> midi (notes a' ! i) \<le> 108
                   \<and> 0 \<le> startTime (notes a' ! i)
                else notes a' ! i = notes a ! i"
    by blast
  have r: "round ((48::real) / 24) = 2"
    by (simp add: round_def)
  from len obtain m where m: "notes a' = [m]"
    by (cases "notes a'") (simp_all add: a_def)
  from each have "note_id m = ''note-0-1700000000000'' \<and> startTime m = 4.5 \<and> midi m = 58"
    by (simp add: m a_def scenarioDrag_def scenarioNote_def moveTo_def vs r)
  then have "map (\<lambda>n. (note_id n, startTime n, midi n)) (notes a') = [(''note-0-1700000000000'', 4.5, 58)]"
    by (simp add: m)
  then show ?thesis
    using down mm
    by (simp add: scenarioApp_def loadedApp_def initialApp_def DEFAULT_ZOOM_X_def DEFAULT_ZOOM_Y_def)
qed

section \<open>Geometry of the pitch axis\<close>

text \<open>
  Claim C2. For every pitch \<open>p\<close> in \<open>[21, 108]\<close>, every vertical zoom above 0 and every
  vertical scroll offset of at least 0, the vertical pixel coordinate of \<open>p\<close> is
  \<open>(108 - p) * zoomY - scrollY\<close>, and every higher pitch of the range has a strictly
  smaller coordinate. The row of the key column that shows \<open>p\<close> lies at this coordinate.
\<close>

theorem pixelY_formula_decreasing:
  assumes "0 < zoomY vs" and "0 \<le> scrollY vs" and "21 \<le> p" and "p \<le> 108"
  shows "pixelY vs p = (108 - p) * zoomY vs - scrollY vs
       \<and> (\<forall>q. 21 \<le> q \<and> q \<le> 108 \<and> p < q \<longrightarrow> pixelY vs q < pixelY vs p)
       \<and> (\<forall>i < 88. p = 108 - real i \<longrightarrow> keyRowTops vs ! i = (p, pixelY vs p))"
proof (intro conjI allI impI)
  show "pixelY vs p = (108 - p) * zoomY vs - scrollY vs"
    by (simp add: pixelY_def noteTop_def keysTop_def NOTE_HEIGHT_def MAX_MIDI_def)
next
  fix q assume "21 \<le> q \<and> q \<le> 108 \<and> p < q"
  then have "(108 - q) * zoomY vs < (108 - p) * zoomY vs"
    using assms(1) by simp
  then show "pixelY vs q < pixelY vs p"
    by (simp add: pixelY_def noteTop_def keysTop_def NOTE_HEIGHT_def MAX_MIDI_def)
next
  fix i :: nat assume "i < 88" and "p = 108 - real i"
  then show "keyRowTops vs ! i = (p, pixelY vs p)"
    using keyRowTops_nth[of i vs] by (simp add: MAX_MIDI_def)
qed

text \<open>
  At the default zoom and no scroll, pitch 60 lies at 1152 pixels, in row 48 of the key
  column, and pitch 61 above it at 1128.
\<close>

theorem pixelY_formula_decreasing_witness:
  "0 < zoomY (viewState initialApp) \<and> 0 \<le> scrollY (viewState initialApp)
   \<and> pixelY (viewState initialApp) 60 = 1152
   \<and> pixelY (viewState initialApp) 61 = 1128
   \<and> pixelY (viewState initialApp) 61 < pixelY (viewState initialApp) 60
   \<and> keyRowTops (viewState initialApp) ! 48 = (60, 1152)"
proof -
  have z: "0 < zoomY (viewState initialApp)" and sc: "0 \<le> scrollY (viewState initialApp)"
    by (simp_all add: initialApp_def DEFAULT_ZOOM_Y_def)
  have zy: "zoomY (viewState initialApp) = 24" and sy: "scrollY (viewState initialApp) = 0"
    by (simp_all add: initialApp_def DEFAULT_ZOOM_Y_def)
  note at60 = pixelY_formula_decreasing[OF z sc, of 60]
  note at61 = pixelY_formula_decreasing[OF z sc, of 61]
  have p60: "pixelY (viewState initialApp) 60 = 1152"
    using at60 by (simp add: zy sy)
  have p61: "pixelY (viewState initialApp) 61 = 1128"
    using at61 by (simp add: zy sy)
  have "\<forall>i < 88. (60::real) = 108 - real i \<longrightarrow>
          keyRowTops (viewState initialApp) ! i = (60, pixelY (viewState initialApp) 60)"
    using at60 by simp
  then have row: "keyRowTops (viewState initialApp) ! 48 = (60, 1152)"
    using p60 by simp
  show ?thesis
    using z sc p60 p61 row by simp
qed

section \<open>Selection and write-back\<close>

text \<open>
  Claim C5. For every note collection and every list of ids, the selection operation
  replaces the selection wholesale: the collection keeps its length, each note is the old
  note with its flag set to whether its id is in the list, so afterwards the flag of a
  note is true if and only if its id is a member of the list; key, scale, tempo and the
  rest of the state stay as they are.
\<close>

theorem selection_replaced_wholesale:
  assumes "analysis s = Some a"
  shows "\<exists>a'. handleSelectionChange ids s = s\<lparr>analysis := Some a'\<rparr>
           \<and> key a' = key a \<and> scale a' = scale a \<and> bpm a' = bpm a
           \<and> length (notes a') = length (notes a)
           \<and> (\<forall>i < length (notes a).
                 notes a' ! i = (notes a ! i)\<lparr>selected := Some (note_id (notes a ! i) \<in> set ids)\<rparr>)
           \<and> (\<forall>n \<in> set (notes a'). (selected n = Some True) = (note_id n \<in> set ids))"
  using assms
  by (intro exI[of _ "a\<lparr>notes := map (\<lambda>n. n\<lparr>selected := Some (note_id n \<in> set ids)\<rparr>) (notes a)\<rparr>"])
     (auto simp: handleSelectionChange_def)

text \<open>
  Selecting \<open>a\<close> and \<open>b\<close> among the notes \<open>a\<close> (unselected), \<open>b\<close> (no flag) and \<open>c\<close>
  (selected) leaves exactly \<open>a\<close> and \<open>b\<close> selected.
\<close>

theorem selection_replaced_wholesale_witness:
  "analysis threeNotesApp = Some threeNotes
   \<and> map_option (\<lambda>a. map (\<lambda>n. (note_id n, selected n)) (notes a))
        (analysis (handleSelectionChange [''a'', ''b''] threeNotesApp))
       = Some [(''a'', Some True), (''b'', Some True), (''c'', Some False)]"
proof -
  have h: "analysis threeNotesApp = Some threeNotes"
    by (simp add: threeNotesApp_def)
  from selection_replaced_wholesale[OF h, of "[''a'', ''b'']"] obtain a' where
    a': "handleSelectionChange [''a'', ''b''] threeNotesApp = threeNotesApp\<lparr>analysis := Some a'\<rparr>"
    and len: "length (notes a') = length (notes threeNotes)"
    and nth: "\<forall>i < length (notes threeNotes).
                notes a' ! i = (notes threeNotes ! i)
                  \<lparr>selected := Some (note_id (notes threeNotes ! i) \<in> set [''a'', ''b''])\<rparr>"
    by blast
  have "map (\<lambda>n. (note_id n, selected n)) (notes a')
          = [(''a'', Some True), (''b'', Some True), (''c'', Some False)]"
    using len nth
    by (simp add: list_eq_iff_nth_eq threeNotes_def noteA_def noteB_def noteC_def less_Suc_eq
        all_conj_distrib numeral_3_eq_3)
  then show ?thesis
    using h a' by simp
qed

text \<open>
  Claim C6. For every analysis result and every updated note, writing the note back by
  its id keeps the length of the collection and the id at every position, puts the updated
  note at the positions that held its id, leaves every note with another id as it is, and
  leaves key, scale and tempo, and the rest of the state, as they are.
\<close>

theorem updateNote_frame:
  assumes "analysis s = Some a"
  shows "\<exists>a'. updateNote u s = s\<lparr>analysis := Some a'\<rparr>
           \<and> key a' = key a \<and> scale a' = scale a \<and> bpm a' = bpm a
           \<and> length (notes a') = length (notes a)
           \<and> map note_id (notes a') = map note_id (notes a)
           \<and> (\<forall>i < length (notes a).
                 notes a' ! i = (if note_id (notes a ! i) = note_id u then u else notes a ! i))"
  using assms
  by (intro exI[of _ "a\<lparr>notes := map (\<lambda>n. if note_id n = note_id u then u else n) (notes a)\<rparr>"])
     (auto simp: updateNote_def)

text \<open>Writing a moved \<open>b\<close> back among \<open>a\<close>, \<open>b\<close>, \<open>c\<close> changes the middle note only.\<close>

theorem updateNote_frame_witness:
  "analysis threeNotesApp = Some threeNotes
   \<and> map_option (\<lambda>a. (key a, scale a, bpm a, notes a)) (analysis (updateNote movedB threeNotesApp))
       = Some (''A Minor'', ''Minor'', 90, [noteA, movedB, noteC])"
proof -
  have h: "analysis threeNotesApp = Some threeNotes"
    by (simp add: threeNotesApp_def)
  from updateNote_frame[OF h, of movedB] obtain a' where
    a': "updateNote movedB threeNotesApp = threeNotesApp\<lparr>analysis := Some a'\<rparr>"
    and same: "key a' = key threeNotes" "scale a' = scale threeNotes" "bpm a' = bpm threeNotes"
    and len: "length (notes a') = length (notes threeNotes)"
    and nth: "\<forall>i < length (notes threeNotes).
                notes a' ! i = (if note_id (notes threeNotes ! i) = note_id movedB then movedB
                                else notes threeNotes ! i)"
    by blast
  have "notes a' = [noteA, movedB, noteC]"
    using len nth
    by (simp add: list_eq_iff_nth_eq threeNotes_def noteA_def noteB_def noteC_def movedB_def
        less_Suc_eq all_conj_distrib numeral_3_eq_3)
  then show ?thesis
    using h a' same by (simp add: threeNotes_def)
qed

section \<open>Transport\<close>

text \<open>
  Claim C7. In every state with no audio buffer loaded, play is a no-op: the call returns
  the state as it was, playing flag, current time, references and trace of outside calls
  included; so is the play/pause control when nothing is playing.
\<close>

theorem play_without_audio_noop:
  assumes "audioBuffer s = None"
  shows "play now s = s \<and> (\<not> isPlaying s \<longrightarrow> togglePlayPause now s = s)"
  using assms by (simp add: play_def togglePlayPause_def)

theorem play_without_audio_noop_witness:
  "audioBuffer initialApp = None \<and> \<not> isPlaying initialApp
   \<and> play 12.5 initialApp = initialApp \<and> togglePlayPause 12.5 initialApp = initialApp"
proof -
  have h: "audioBuffer initialApp = None" and np: "\<not> isPlaying initialApp"
    by (simp_all add: initialApp_def)
  from play_without_audio_noop[OF h, of "12.5"] np h show ?thesis
    by simp
qed

text \<open>
  Claim C4. With audio loaded, starting playback at clock reading \<open>now\<close> from the current
  time \<open>t0\<close> records the epoch \<open>now - t0\<close> and sets the playing flag. A frame of a playing
  state computes \<open>elapsed = clock - epoch\<close>; when \<open>elapsed\<close> has reached the duration it
  leaves the state stopped, otherwise it publishes \<open>elapsed\<close> as the current time and
  keeps the epoch. Hence the first frame after \<open>\<Delta>\<close> of clock time, and the last of any
  run of frames that ends \<open>\<Delta>\<close> after the start with none of them at the end of the
  track, reports \<open>t0 + \<Delta>\<close>; and a frame with \<open>t0 + \<Delta>\<close> at or past the duration stops.
\<close>

theorem playback_clock:
  assumes "audioBuffer s = Some b" and "audioContext s = Some ctx"
  shows "startTimeRef (play now s) = now - currentTime s \<and> isPlaying (play now s)
       \<and> (isPlaying s \<longrightarrow>
            (let elapsed = now - startTimeRef s; s' = loop now frame s in
             if buffer_duration b \<le> elapsed then \<not> isPlaying s'
             else isPlaying s' \<and> currentTime s' = elapsed \<and> startTimeRef s' = startTimeRef s))
       \<and> (let s' = loop (now + \<Delta>) frame (play now s) in
            if buffer_duration b \<le> currentTime s + \<Delta> then \<not> isPlaying s'
            else isPlaying s' \<and> currentTime s' = currentTime s + \<Delta>)
       \<and> ((\<forall>(clock, frame') \<in> set fs. currentTime s + (clock - now) < buffer_duration b)
             \<and> fs \<noteq> [] \<and> fst (last fs) = now + \<Delta> \<longrightarrow>
            isPlaying (runFrames fs (play now s))
            \<and> currentTime (runFrames fs (play now s)) = currentTime s + \<Delta>)"
proof -
  have epoch: "startTimeRef (play now s) = now - currentTime s \<and> isPlaying (play now s)"
    using assms by (simp add: play_def Let_def)
  have tick: "isPlaying s \<longrightarrow>
            (let elapsed = now - startTimeRef s; s' = loop now frame s in
             if buffer_duration b \<le> elapsed then \<not> isPlaying s'
             else isPlaying s' \<and> currentTime s' = elapsed \<and> startTimeRef s' = startTimeRef s)"
    using assms by (simp add: loop_def handleStop_def stop_def Let_def)
  have first: "let s' = loop (now + \<Delta>) frame (play now s) in
            if buffer_duration b \<le> currentTime s + \<Delta> then \<not> isPlaying s'
            else isPlaying s' \<and> currentTime s' = currentTime s + \<Delta>"
    using assms by (simp add: play_def loop_def handleStop_def stop_def Let_def)
  have run: "(\<forall>(clock, frame') \<in> set fs. currentTime s + (clock - now) < buffer_duration b)
             \<and> fs \<noteq> [] \<and> fst (last fs) = now + \<Delta> \<longrightarrow>
            isPlaying (runFrames fs (play now s))
            \<and> currentTime (runFrames fs (play now s)) = currentTime s + \<Delta>"
  proof
    assume run: "(\<forall>(clock, frame') \<in> set fs. currentTime s + (clock - now) < buffer_duration b)
                 \<and> fs \<noteq> [] \<and> fst (last fs) = now + \<Delta>"
    note started = play_starts[OF assms, of now]
    have before_end: "\<forall>(clock, frame') \<in> set fs.
                        clock - startTimeRef (play now s) < buffer_duration b"
      using run started by (auto simp: algebra_simps)
    from run have ne: "fs \<noteq> []"
      by simp
    from started have p: "isPlaying (play now s)" and c: "audioContext (play now s) = Some ctx"
      and bf: "audioBuffer (play now s) = Some b"
      by simp_all
    from runFrames_publishes[OF p c bf before_end ne] run started
    show "isPlaying (runFrames fs (play now s))
          \<and> currentTime (runFrames fs (play now s)) = currentTime s + \<Delta>"
      by simp
  qed
  from epoch tick first run show ?thesis
    by blast
qed

text \<open>
  The 40-second clip, paused at 3 s and started at clock 10: frames at clocks 11, 12.5 and
  20 leave the position at 13 s; a frame at clock 47.5 alone finds 40.5 s elapsed and stops.
\<close>

theorem playback_clock_witness:
  "audioBuffer pausedApp = Some \<lparr>buffer_duration = 40\<rparr>
   \<and> audioContext pausedApp = Some \<lparr>ctx_state = Running\<rparr>
   \<and> startTimeRef (play 10 pausedApp) = 7
   \<and> isPlaying (play 10 pausedApp)
   \<and> currentTime (loop 20 1 (play 10 pausedApp)) = 13
   \<and> isPlaying (runFrames [(11, 1), (12.5, 2), (20, 3)] (play 10 pausedApp))
   \<and> currentTime (runFrames [(11, 1), (12.5, 2), (20, 3)] (play 10 pausedApp)) = 13
   \<and> \<not> isPlaying (loop 47.5 1 (play 10 pausedApp))"
proof -
  have b: "audioBuffer pausedApp = Some \<lparr>buffer_duration = 40\<rparr>"
    and c: "audioContext pausedApp = Some \<lparr>ctx_state = Running\<rparr>"
    and t: "currentTime pausedApp = 3"
    by (simp_all add: pausedApp_def loadedApp_def initialApp_def)
  note runs = playback_clock[OF b c, of 10 1 10 "[(11, 1), (12.5, 2), (20, 3)]"]
  note ends = playback_clock[OF b c, of 10 1 "37.5" "[]"]
  have e: "startTimeRef (play 10 pausedApp) = 7" and p: "isPlaying (play 10 pausedApp)"
    using runs by (simp_all add: t)
  have first: "currentTime (loop 20 1 (play 10 pausedApp)) = 13"
    using runs by (simp add: t Let_def)
  have run: "isPlaying (runFrames [(11, 1), (12.5, 2), (20, 3)] (play 10 pausedApp))
             \<and> currentTime (runFrames [(11, 1), (12.5, 2), (20, 3)] (play 10 pausedApp)) = 13"
    using runs by (simp add: t)
  have stopped: "\<not> isPlaying (loop 47.5 1 (play 10 pausedApp))"
    using ends by (simp add: t Let_def)
  show ?thesis
    using b c e p first run stopped by simp
qed

text \<open>
  Claim C3, as the specification has it: on manual stop the position resets to 0, and on
  the automatic stop at the end of the track the position is left at the last computed
  value. The second half fails: the frame that finds the track at its end calls
  \<^verbatim>\<open>handleStop\<close>, the handler of the stop control. In the playing state last drawn at
  39.5 s, the frame at clock 140.25 computes 40.25 s, stops the playback, and leaves the
  position at 0, which is neither of the two computed values.
\<close>

theorem auto_stop_position_counterexample:
  "isPlaying playingApp
   \<and> audioBuffer playingApp = Some \<lparr>buffer_duration = 40\<rparr>
   \<and> currentTime playingApp = 39.5
   \<and> 140.25 - startTimeRef playingApp = 40.25
   \<and> \<not> isPlaying (loop 140.25 3 playingApp)
   \<and> currentTime (loop 140.25 3 playingApp) = 0
   \<and> currentTime (loop 140.25 3 playingApp) \<noteq> currentTime playingApp
   \<and> currentTime (loop 140.25 3 playingApp) \<noteq> 140.25 - startTimeRef playingApp"
  by (simp add: playingApp_def loadedApp_def initialApp_def play_def loopEffect_def loop_def
      handleStop_def stop_def Let_def)

text \<open>
  Claim C3, amended: on manual stop the playback position resets to 0, and on the
  automatic stop at the end of the track it resets to 0 as well: a frame of a playing state
  with audio loaded that finds the elapsed time at or past the duration does what the stop
  control does.
\<close>

theorem stop_and_auto_stop_reset_position:
  "currentTime (handleStop s) = 0 \<and> \<not> isPlaying (handleStop s)
   \<and> (isPlaying s \<and> audioContext s \<noteq> None \<and> audioBuffer s = Some b
        \<and> buffer_duration b \<le> now - startTimeRef s
      \<longrightarrow> loop now frame s = handleStop s
          \<and> currentTime (loop now frame s) = 0 \<and> \<not> isPlaying (loop now frame s))"
  by (simp add: handleStop_def stop_def loop_def)

theorem stop_and_auto_stop_reset_position_witness:
  "isPlaying playingApp \<and> audioContext playingApp \<noteq> None
   \<and> audioBuffer playingApp = Some \<lparr>buffer_duration = 40\<rparr>
   \<and> buffer_duration \<lparr>buffer_duration = 40\<rparr> \<le> 140.25 - startTimeRef playingApp
   \<and> currentTime (handleStop playingApp) = 0
   \<and> loop 140.25 3 playingApp = handleStop playingApp
   \<and> currentTime (loop 140.25 3 playingApp) = 0"
proof -
  have h: "isPlaying playingApp \<and> audioContext playingApp \<noteq> None
           \<and> audioBuffer playingApp = Some \<lparr>buffer_duration = 40\<rparr>
           \<and> buffer_duration \<lparr>buffer_duration = 40\<rparr> \<le> 140.25 - startTimeRef playingApp"
    by (simp add: playingApp_def loadedApp_def initialApp_def play_def loopEffect_def loop_def
        Let_def)
  from stop_and_auto_stop_reset_position
         [of playingApp "\<lparr>buffer_duration = 40\<rparr>" "140.25" 3] h
  show ?thesis by simp
qed

text \<open>
  Claim C10, as stated, ends: only the explicit stop control resets the current time to
  0. That fails: no stop control is used in the run below, where the clip paused at 3 s is
  started at clock 10 and the frame at clock 47.5, at the end of the track, puts the
  current time from 3 to 0.
\<close>

theorem only_stop_control_resets_counterexample:
  "currentTime (play 10 pausedApp) = 3
   \<and> isPlaying (play 10 pausedApp)
   \<and> currentTime (loop 47.5 1 (play 10 pausedApp)) = 0"
  by (simp add: pausedApp_def loadedApp_def initialApp_def play_def loop_def handleStop_def
      stop_def Let_def)

text \<open>
  Claim C10, amended. In every playing state the play/pause control stops playback: the
  playing flag is cleared, the source node is dropped and the pending frame is cancelled,
  while the current time stays as it is, so with audio loaded the next play/pause starts the
  source at that same position. The current time is reset to 0 only by \<^verbatim>\<open>handleStop\<close>,
  which runs on the stop control and on the frame at the end of the track: play and stop
  keep the current time, and a frame either does what \<^verbatim>\<open>handleStop\<close> does, or publishes
  the elapsed time, or changes nothing.
\<close>

theorem pause_keeps_position:
  assumes "isPlaying s"
  shows "\<not> isPlaying (togglePlayPause now s)
       \<and> sourceNodeRef (togglePlayPause now s) = None
       \<and> last (trace (togglePlayPause now s)) = CancelAnimationFrame (animationFrameRef s)
       \<and> currentTime (togglePlayPause now s) = currentTime s
       \<and> (audioBuffer s = Some b \<and> audioContext s = Some ctx \<longrightarrow>
             (let s' = togglePlayPause now' (togglePlayPause now s) in
                isPlaying s' \<and> currentTime s' = currentTime s
                \<and> startTimeRef s' = now' - currentTime s
                \<and> sourceNodeRef s' = Some \<lparr>source_buffer = b, source_offset = currentTime s\<rparr>
                \<and> last (trace s') = SourceStart 0 (currentTime s)))
       \<and> currentTime (handleStop s) = 0
       \<and> currentTime (play now s) = currentTime s
       \<and> currentTime (stop s) = currentTime s
       \<and> (loop now frame s = handleStop s
          \<or> (isPlaying (loop now frame s) \<and> currentTime (loop now frame s) = now - startTimeRef s)
          \<or> loop now frame s = s)"
proof -
  have toggle: "togglePlayPause now s = stop s"
    using assms by (simp add: togglePlayPause_def)
  have resume: "togglePlayPause now' (stop s) = play now' (stop s)"
    by (simp add: togglePlayPause_def stop_def)
  have keep: "currentTime (play now s) = currentTime s"
    by (simp add: play_def Let_def split: option.splits)
  have frame: "loop now frame s = handleStop s
          \<or> (isPlaying (loop now frame s) \<and> currentTime (loop now frame s) = now - startTimeRef s)
          \<or> loop now frame s = s"
    using assms by (simp add: loop_def Let_def)
  show ?thesis
    unfolding toggle resume using keep frame
    by (simp add: stop_def play_def handleStop_def Let_def)
qed

text \<open>
  The clip playing at 39.5 s: pausing at clock 139.8 keeps 39.5 s and cancels frame 2;
  playing again at clock 200 starts the source at 39.5 s with the epoch 160.5.
\<close>

theorem pause_keeps_position_witness:
  "isPlaying playingApp
   \<and> audioBuffer playingApp = Some \<lparr>buffer_duration = 40\<rparr>
   \<and> audioContext playingApp = Some \<lparr>ctx_state = Running\<rparr>
   \<and> \<not> isPlaying (togglePlayPause 139.8 playingApp)
   \<and> currentTime (togglePlayPause 139.8 playingApp) = 39.5
   \<and> last (trace (togglePlayPause 139.8 playingApp)) = CancelAnimationFrame 2
   \<and> isPlaying (togglePlayPause 200 (togglePlayPause 139.8 playingApp))
   \<and> currentTime (togglePlayPause 200 (togglePlayPause 139.8 playingApp)) = 39.5
   \<and> startTimeRef (togglePlayPause 200 (togglePlayPause 139.8 playingApp)) = 160.5
   \<and> currentTime (handleStop playingApp) = 0"
proof -
  have h: "isPlaying playingApp"
    and b: "audioBuffer playingApp = Some \<lparr>buffer_duration = 40\<rparr>"
    and c: "audioContext playingApp = Some \<lparr>ctx_state = Running\<rparr>"
    and t: "currentTime playingApp = 39.5"
    and f: "animationFrameRef playingApp = 2"
    by (simp_all add: playingApp_def loadedApp_def initialApp_def play_def loopEffect_def
        loop_def Let_def)
  from pause_keeps_position
         [OF h, of "139.8" "\<lparr>buffer_duration = 40\<rparr>" "\<lparr>ctx_state = Running\<rparr>" 200 3]
  show ?thesis
    using h b c by (simp add: t f Let_def)
qed

section \<open>Upload\<close>

text \<open>
  Claim C8. An uploaded file of more than 50 MB (50 * 1024 * 1024 bytes) is rejected at
  once, whatever the services would answer: the handler shows the message about the size
  and does nothing else. No audio context is made, nothing is decoded or encoded, no
  request is sent, and file name, analysis result, audio buffer and loading flag stay as
  they were.
\<close>

theorem oversized_upload_rejected:
  assumes "50 * 1024 * 1024 < file_size f"
  shows "handleFileUpload (Some f) env s = s\<lparr>trace := trace s @ [Alert oversizeMessage]\<rparr>
       \<and> fileName (handleFileUpload (Some f) env s) = fileName s
       \<and> analysis (handleFileUpload (Some f) env s) = analysis s
       \<and> audioBuffer (handleFileUpload (Some f) env s) = audioBuffer s
       \<and> audioContext (handleFileUpload (Some f) env s) = audioContext s
       \<and> isAnalyzing (handleFileUpload (Some f) env s) = isAnalyzing s"
  using assms by (simp add: handleFileUpload_def)

text \<open>A file of 60 MB on the start screen: one alert, and the state of the start screen.\<close>

theorem oversized_upload_rejected_witness:
  "50 * 1024 * 1024 < file_size bigFile
   \<and> trace (handleFileUpload (Some bigFile) sampleUploadEnv initialApp) = [Alert oversizeMessage]
   \<and> fileName (handleFileUpload (Some bigFile) sampleUploadEnv initialApp) = None
   \<and> analysis (handleFileUpload (Some bigFile) sampleUploadEnv initialApp) = None
   \<and> audioBuffer (handleFileUpload (Some bigFile) sampleUploadEnv initialApp) = None"
proof -
  have big: "50 * 1024 * 1024 < file_size bigFile"
    by (simp add: bigFile_def)
  from oversized_upload_rejected[OF big, of sampleUploadEnv initialApp] big
  show ?thesis
    by (simp add: initialApp_def)
qed

section \<open>The answer of the transcription service\<close>

text \<open>
  Claim C9. When the API key is set and the model answers with a text that parses to
  \<open>data\<close>: if \<open>data\<close> has no \<^verbatim>\<open>notes\<close> that is an array (the field is missing, or is not an
  array, or \<open>data\<close> is not an object), the call fails with an error; if \<^verbatim>\<open>notes\<close> is an
  array, the call returns an object in which a missing \<^verbatim>\<open>key\<close> is \<^verbatim>\<open>"Desconocido"\<close>, a
  missing \<^verbatim>\<open>scale\<close> is \<^verbatim>\<open>"Desconocido"\<close>, a missing \<^verbatim>\<open>bpm\<close> is 120, and \<^verbatim>\<open>notes\<close> has one
  entry for each note of the answer.
\<close>

theorem analysis_fallbacks_and_notes_failure:
  assumes key: "API_KEY env = Some k" "k \<noteq> []"
    and resp: "generateContent env = Inr (Some t)" "t \<noteq> []"
    and parsed: "JSON_parse env t = Inr data"
  shows "((\<forall>xs. getProp data ''notes'' \<noteq> Some (JArr xs)) \<longrightarrow>
            snd (analyzeAudioWithGemini env base64Audio mimeType onProgress) = Inl TypeError)
       \<and> (\<forall>xs. getProp data ''notes'' = Some (JArr xs) \<longrightarrow>
            (\<exists>r. snd (analyzeAudioWithGemini env base64Audio mimeType onProgress) = Inr r
                \<and> (getProp data ''key'' = None \<longrightarrow> getProp r ''key'' = Some (JStr ''Desconocido''))
                \<and> (getProp data ''scale'' = None \<longrightarrow> getProp r ''scale'' = Some (JStr ''Desconocido''))
                \<and> (getProp data ''bpm'' = None \<longrightarrow> getProp r ''bpm'' = Some (JNum 120))
                \<and> (\<exists>ns. getProp r ''notes'' = Some (JArr ns) \<and> length ns = length xs)))"
proof (intro conjI allI impI)
  assume "\<forall>xs. getProp data ''notes'' \<noteq> Some (JArr xs)"
  then have "hydrateNotes env data = Inl TypeError"
    by (rule hydrateNotes_fails)
  then show "snd (analyzeAudioWithGemini env base64Audio mimeType onProgress) = Inl TypeError"
    using key resp parsed by (simp add: analyzeAudioWithGemini_def Let_def)
next
  fix xs assume "getProp data ''notes'' = Some (JArr xs)"
  then have "hydrateNotes env data =
               Inr (map (\<lambda>(index, n). hydrate env index n) (zip [0 ..< length xs] xs))"
    by (rule hydrateNotes_array)
  then show "\<exists>r. snd (analyzeAudioWithGemini env base64Audio mimeType onProgress) = Inr r
                \<and> (getProp data ''key'' = None \<longrightarrow> getProp r ''key'' = Some (JStr ''Desconocido''))
                \<and> (getProp data ''scale'' = None \<longrightarrow> getProp r ''scale'' = Some (JStr ''Desconocido''))
                \<and> (getProp data ''bpm'' = None \<longrightarrow> getProp r ''bpm'' = Some (JNum 120))
                \<and> (\<exists>ns. getProp r ''notes'' = Some (JArr ns) \<and> length ns = length xs)"
    using key resp parsed by (simp add: analyzeAudioWithGemini_def Let_def orElse_missing)
qed

text \<open>
  An answer with one note and nothing else comes back with the three fallback literals;
  an answer whose \<^verbatim>\<open>notes\<close> is a string makes the call fail.
\<close>

theorem analysis_fallbacks_and_notes_failure_witness:
  "API_KEY (answering bareNotes) = Some ''secret''
   \<and> getProp bareNotes ''key'' = None \<and> getProp bareNotes ''scale'' = None
   \<and> getProp bareNotes ''bpm'' = None
   \<and> map_sum id (\<lambda>r. (getProp r ''key'', getProp r ''scale'', getProp r ''bpm''))
        (snd (analyzeAudioWithGemini (answering bareNotes) ''UklGRg=='' ''audio/wav'' True))
       = Inr (Some (JStr ''Desconocido''), Some (JStr ''Desconocido''), Some (JNum 120))
   \<and> getProp notesNotArray ''notes'' = Some (JStr ''none'')
   \<and> snd (analyzeAudioWithGemini (answering notesNotArray) ''UklGRg=='' ''audio/wav'' True)
       = Inl TypeError"
proof -
  have k: "API_KEY (answering d) = Some ''secret''" and ne: "''secret'' \<noteq> []"
    and g: "generateContent (answering d) = Inr (Some ''(the JSON text of the answer)'')"
    and tn: "''(the JSON text of the answer)'' \<noteq> []"
    and p: "JSON_parse (answering d) ''(the JSON text of the answer)'' = Inr d" for d
    by (simp_all add: answering_def)
  note good = analysis_fallbacks_and_notes_failure
                [OF k ne g tn p, of bareNotes "''UklGRg==''" "''audio/wav''" True]
  note bad = analysis_fallbacks_and_notes_failure
                [OF k ne g tn p, of notesNotArray "''UklGRg==''" "''audio/wav''" True]
  have missing: "getProp bareNotes ''key'' = None \<and> getProp bareNotes ''scale'' = None
                 \<and> getProp bareNotes ''bpm'' = None"
    by (simp add: bareNotes_def)
  have arr: "getProp bareNotes ''notes'' =
               Some (JArr [JObj [(''midi'', JNum 60), (''startTime'', JNum 5),
                                 (''duration'', JNum 2), (''velocity'', JNum 0.8)]])"
    by (simp add: bareNotes_def)
  from good arr missing obtain r where
    r: "snd (analyzeAudioWithGemini (answering bareNotes) ''UklGRg=='' ''audio/wav'' True) = Inr r"
    and fb: "getProp r ''key'' = Some (JStr ''Desconocido'')"
            "getProp r ''scale'' = Some (JStr ''Desconocido'')"
            "getProp r ''bpm'' = Some (JNum 120)"
    by blast
  have str: "getProp notesNotArray ''notes'' = Some (JStr ''none'')"
    by (simp add: notesNotArray_def)
  then have "\<forall>xs. getProp notesNotArray ''notes'' \<noteq> Some (JArr xs)"
    by simp
  with bad have fails:
    "snd (analyzeAudioWithGemini (answering notesNotArray) ''UklGRg=='' ''audio/wav'' True)
       = Inl TypeError"
    by blast
  show ?thesis
    using k[of bareNotes] missing r fb str fails by simp
qed

end
